theory Spec2Isabelle
  imports Complex_Main
begin

section \<open>The load-test orchestrator of \<^verbatim>\<open>src/loadtesting.ts\<close>\<close>

text \<open>
  Array lengths are naturals and timestamps are integers (milliseconds since the epoch).
  A JavaScript number is a finite value or one of the three special values (\<open>jsnum\<close>);
  the finite values are modelled by exact reals. Latencies and the metric summary are
  finite reals, and the summary is computed in exact arithmetic: its values agree with the
  program's doubles only up to rounding. In doubles the mean of three samples
  \<^verbatim>\<open>0.1\<close> is \<^verbatim>\<open>0.10000000000000002\<close>, above each sample, so no order between the fields of
  the summary is stated here. The properties below do not depend on the values of the
  summary: they concern whether a call fails, which samples and thresholds reach the
  collaborators, and what is counted.
\<close>

subsection \<open>Data model\<close>

datatype error =
    MissingLoadTestConfig   \<comment> \<open>\<^verbatim>\<open>Error('No load test config detected')\<close>, line 76\<close>
  | EmptySampleSet          \<comment> \<open>raised by the statistics primitives on an empty array\<close>
  | TypeError               \<comment> \<open>property read on, or \<^verbatim>\<open>Object.entries\<close> of, \<^verbatim>\<open>undefined\<close>\<close>

datatype jsnum = Num real | PosInfinity | NegInfinity | NaN

text \<open>IEEE division of two finite numbers, as \<^verbatim>\<open>/\<close> computes it.\<close>

definition js_div :: "real \<Rightarrow> real \<Rightarrow> jsnum" where
  "js_div a b =
     (if b \<noteq> 0 then Num (a / b)
      else if 0 < a then PosInfinity
      else if a < 0 then NegInfinity
      else NaN)"

text \<open>
  The three-level tree of one iteration: \<^verbatim>\<open>WorkflowResult.result\<close> carries \<^verbatim>\<open>passed\<close> and
  \<^verbatim>\<open>tests\<close>, a test carries \<^verbatim>\<open>steps\<close>, a step carries \<^verbatim>\<open>passed\<close> and \<^verbatim>\<open>responseTime\<close>.
  Only the fields that \<^verbatim>\<open>loadTest\<close> reads are kept.
\<close>

record StepResult =
  passed :: bool
  responseTime :: real

record TestResult =
  steps :: "StepResult list"

record RunResult =
  passed :: bool
  tests :: "TestResult list"

record WorkflowResult =
  result :: RunResult

text \<open>An element of the array \<^verbatim>\<open>runPhases\<close> resolves to (\<^verbatim>\<open>PromiseSettledResult\<close>).\<close>

datatype 'a PromiseSettledResult = Fulfilled 'a | Rejected string

text \<open>\<^verbatim>\<open>LoadTestMetric\<close>, lines 30-37 (\<^verbatim>\<open>min\<close> and \<^verbatim>\<open>max\<close> renamed).\<close>

record LoadTestMetric =
  avg :: real
  min_v :: real
  max_v :: real
  med :: real
  p95 :: real
  p99 :: real

text \<open>
  \<^verbatim>\<open>LoadTestCheck\<close> and \<^verbatim>\<open>LoadTestChecksResult\<close>, lines 39-55: objects whose six keys are all
  optional, hence partial maps from the key to its value. A threshold is
  \<^verbatim>\<open>number | Matcher[]\<close>, where the number read from the configuration may be any
  JavaScript number; the type \<^verbatim>\<open>Matcher\<close> lives in \<^verbatim>\<open>./matcher\<close> and stays a parameter.
\<close>

datatype MetricKey = KAvg | KMin | KMax | KMed | KP95 | KP99

datatype 'm threshold = Number jsnum | Matchers "'m list"

record CheckResult =
  passed :: bool

type_synonym 'm LoadTestCheck = "MetricKey \<rightharpoonup> 'm threshold"

type_synonym LoadTestChecksResult = "MetricKey \<rightharpoonup> CheckResult"

record Phase =
  arrivalRate :: real
  duration :: real

record 'm LoadTestConfig =
  phases :: "Phase list option"
  check :: "'m LoadTestCheck option"

record 'm Config =
  loadTest :: "'m LoadTestConfig option"

record 'm Workflow =
  config :: "'m Config option"

text \<open>\<^verbatim>\<open>LoadTestResult\<close>, lines 8-28.\<close>

record Counts =
  passed :: nat
  total :: nat

record Stats =
  tests :: Counts
  steps :: Counts

record LoadTestOutcome =
  stats :: Stats
  responseTime :: LoadTestMetric
  iterations :: nat
  rps :: jsnum
  duration :: int
  passed :: bool
  checks :: "LoadTestChecksResult option"

record 'm LoadTestResult =
  workflow :: "'m Workflow"
  result :: LoadTestOutcome

subsection \<open>Collaborators and observable effects\<close>

text \<open>
  What \<^verbatim>\<open>loadTest\<close> consumes from outside: the settled outcomes the phase scheduler returns
  for the declared phases (one per iteration it ran, in invocation order), the check
  evaluator \<^verbatim>\<open>checkResult\<close> of \<^verbatim>\<open>./matcher\<close>, the three readings of the wall clock
  (\<^verbatim>\<open>new Date()\<close> on line 78, \<^verbatim>\<open>Date.now()\<close> on lines 137 and 139) and whether an event
  emitter was passed in the options.
\<close>

record 'm Env =
  runPhases :: "Phase list \<Rightarrow> WorkflowResult PromiseSettledResult list"
  checkResult :: "real \<Rightarrow> 'm threshold \<Rightarrow> CheckResult"
  start :: int
  now_rps :: int
  now_duration :: int
  ee :: bool

text \<open>The calls that leave \<^verbatim>\<open>loadTest\<close>, in the order they are made.\<close>

datatype 'm Event =
    SchedulerInvoked "Phase list"
  | CheckEvaluated MetricKey real "'m threshold"
  | Emitted string "'m LoadTestResult"

subsection \<open>Statistics primitives\<close>

text \<open>
  \<^verbatim>\<open>mean\<close>, \<^verbatim>\<open>min\<close>, \<^verbatim>\<open>max\<close>, \<^verbatim>\<open>median\<close> and \<^verbatim>\<open>quantile\<close> are imported from the package
  \<^verbatim>\<open>simple-statistics\<close>, which is not part of the sources. Section 4.1 of the
  specification fixes what they compute, and that each fails on an empty sample.
\<close>

text \<open>Modelled from the spec: \<^verbatim>\<open>mean\<close> of \<^verbatim>\<open>simple-statistics\<close>, the arithmetic mean.\<close>

definition mean :: "real list \<Rightarrow> error + real" where
  "mean x = (if x = [] then Inl EmptySampleSet else Inr (sum_list x / real (length x)))"

text \<open>Modelled from the spec: \<^verbatim>\<open>min\<close> of \<^verbatim>\<open>simple-statistics\<close>, the least sample.\<close>

definition min_s :: "real list \<Rightarrow> error + real" where
  "min_s x = (if x = [] then Inl EmptySampleSet else Inr (Min (set x)))"

text \<open>Modelled from the spec: \<^verbatim>\<open>max\<close> of \<^verbatim>\<open>simple-statistics\<close>, the greatest sample.\<close>

definition max_s :: "real list \<Rightarrow> error + real" where
  "max_s x = (if x = [] then Inl EmptySampleSet else Inr (Max (set x)))"

text \<open>
  Modelled from the spec: the linear-interpolation (type 7) quantile estimator behind
  \<^verbatim>\<open>quantile\<close> of \<^verbatim>\<open>simple-statistics\<close>, on a sorted non-empty sample: the value at the
  fractional index \<open>(n - 1) * p\<close>, interpolated between its two neighbours. It is used at
  \<open>p\<close> between 0 and 1 only, where both indices are within the sample
  (\<open>quantile_index\<close> below).
\<close>

definition quantileSorted :: "real list \<Rightarrow> real \<Rightarrow> real" where
  "quantileSorted s p =
     (let h = real (length s - 1) * p;
          lo = nat \<lfloor>h\<rfloor>;
          hi = min (lo + 1) (length s - 1)
      in s ! lo + (h - real lo) * (s ! hi - s ! lo))"

text \<open>
  Modelled from the spec: \<^verbatim>\<open>quantile\<close> of \<^verbatim>\<open>simple-statistics\<close>, the estimator on the sorted
  copy of the sample.
\<close>

definition quantile :: "real list \<Rightarrow> real \<Rightarrow> error + real" where
  "quantile x p = (if x = [] then Inl EmptySampleSet else Inr (quantileSorted (sort x) p))"

text \<open>Modelled from the spec: \<^verbatim>\<open>median\<close> of \<^verbatim>\<open>simple-statistics\<close>, the 50th percentile.\<close>

definition median :: "real list \<Rightarrow> error + real" where
  "median x = quantile x (1 / 2)"

subsection \<open>The metric aggregator\<close>

text \<open>
  \<^verbatim>\<open>metricsResult\<close>, lines 57-66. The object literal evaluates its six properties in order;
  the first primitive that throws ends the call.
\<close>

definition metricsResult :: "real list \<Rightarrow> error + LoadTestMetric" where
  "metricsResult numbers =
     (case mean numbers of Inl e \<Rightarrow> Inl e | Inr a \<Rightarrow>
     (case min_s numbers of Inl e \<Rightarrow> Inl e | Inr mn \<Rightarrow>
     (case max_s numbers of Inl e \<Rightarrow> Inl e | Inr mx \<Rightarrow>
     (case median numbers of Inl e \<Rightarrow> Inl e | Inr md \<Rightarrow>
     (case quantile numbers (95 / 100) of Inl e \<Rightarrow> Inl e | Inr q95 \<Rightarrow>
     (case quantile numbers (99 / 100) of Inl e \<Rightarrow> Inl e | Inr q99 \<Rightarrow>
        Inr \<lparr>avg = a, min_v = mn, max_v = mx, med = md, p95 = q95, p99 = q99\<rparr>))))))"

subsection \<open>The orchestrator\<close>

text \<open>\<^verbatim>\<open>workflow.config?.loadTest\<close>: \<^verbatim>\<open>undefined\<close> as soon as one link is missing.\<close>

definition loadTestConfig :: "'m Workflow \<Rightarrow> 'm LoadTestConfig option" where
  "loadTestConfig w = (case config w of None \<Rightarrow> None | Some c \<Rightarrow> Config.loadTest c)"

definition configPhases :: "'m Workflow \<Rightarrow> Phase list option" where
  "configPhases w = (case loadTestConfig w of None \<Rightarrow> None | Some lt \<Rightarrow> phases lt)"

definition configCheck :: "'m Workflow \<Rightarrow> 'm LoadTestCheck option" where
  "configCheck w = (case loadTestConfig w of None \<Rightarrow> None | Some lt \<Rightarrow> check lt)"

text \<open>
  Line 80: every settled outcome is read as a fulfilled one. A rejected outcome has no
  \<^verbatim>\<open>value\<close>, so \<^verbatim>\<open>.value.result\<close> throws a \<^verbatim>\<open>TypeError\<close> there.
\<close>

fun harvest :: "WorkflowResult PromiseSettledResult list \<Rightarrow> error + RunResult list" where
  "harvest [] = Inr []"
| "harvest (Rejected reason # rest) = Inl TypeError"
| "harvest (Fulfilled v # rest) =
     (case harvest rest of Inl e \<Rightarrow> Inl e | Inr rs \<Rightarrow> Inr (WorkflowResult.result v # rs))"

text \<open>Lines 86 and 90: the nested arrays of step flags and of step latencies, \<^verbatim>\<open>flat(2)\<close>.\<close>

definition stepFlags :: "RunResult list \<Rightarrow> bool list" where
  "stepFlags results =
     concat (concat (map (\<lambda>test. map (\<lambda>test. map StepResult.passed (TestResult.steps test)) test)
                         (map RunResult.tests results)))"

definition stepLatencies :: "RunResult list \<Rightarrow> real list" where
  "stepLatencies results =
     concat (concat (map (\<lambda>test. map (\<lambda>test. map StepResult.responseTime (TestResult.steps test)) test)
                         (map RunResult.tests results)))"

text \<open>
  Lines 94-121. A threshold guards its own evaluation by its truthiness: a matcher array
  is truthy (also the empty one), a number is truthy unless it is zero (of either sign)
  or \<^verbatim>\<open>NaN\<close>.
\<close>

fun truthy :: "'m threshold \<Rightarrow> bool" where
  "truthy (Number (Num n)) = (n \<noteq> 0)"
| "truthy (Number PosInfinity) = True"
| "truthy (Number NegInfinity) = True"
| "truthy (Number NaN) = False"
| "truthy (Matchers ms) = True"

definition checkMetric ::
  "(real \<Rightarrow> 'm threshold \<Rightarrow> CheckResult) \<Rightarrow> 'm LoadTestCheck \<Rightarrow> MetricKey \<Rightarrow> real \<Rightarrow>
   LoadTestChecksResult \<times> 'm Event list \<Rightarrow> LoadTestChecksResult \<times> 'm Event list" where
  "checkMetric cr c k v st =
     (case c k of
        None \<Rightarrow> st
      | Some t \<Rightarrow>
          if truthy t then ((fst st)(k \<mapsto> cr v t), snd st @ [CheckEvaluated k v t]) else st)"

definition computeChecks ::
  "(real \<Rightarrow> 'm threshold \<Rightarrow> CheckResult) \<Rightarrow> LoadTestMetric \<Rightarrow> 'm LoadTestCheck \<Rightarrow>
   LoadTestChecksResult \<times> 'm Event list" where
  "computeChecks cr rt c =
     (let st0 = (Map.empty, []);
          st1 = checkMetric cr c KAvg (avg rt) st0;
          st2 = checkMetric cr c KMin (min_v rt) st1;
          st3 = checkMetric cr c KMax (max_v rt) st2;
          st4 = checkMetric cr c KMed (med rt) st3;
          st5 = checkMetric cr c KP95 (p95 rt) st4
      in checkMetric cr c KP99 (p99 rt) st5)"

text \<open>\<^verbatim>\<open>Object.entries\<close> of the checks object: its own keys in insertion order.\<close>

definition metricKeys :: "MetricKey list" where
  "metricKeys = [KAvg, KMin, KMax, KMed, KP95, KP99]"

definition entries :: "LoadTestChecksResult \<Rightarrow> (MetricKey \<times> CheckResult) list" where
  "entries cs = List.map_filter (\<lambda>k. map_option (Pair k) (cs k)) metricKeys"

text \<open>
  \<^verbatim>\<open>loadTest\<close>, lines 75-147. The result pairs what the promise settles to (the thrown error
  or the report) with the calls made on the way.
\<close>

definition loadTest ::
  "'m Env \<Rightarrow> 'm Workflow \<Rightarrow> (error + 'm LoadTestResult) \<times> 'm Event list" where
  "loadTest env w =
     (case configPhases w of
        None \<Rightarrow> (Inl MissingLoadTestConfig, [])
      | Some ph \<Rightarrow>
         (let resultList = runPhases env ph;
              tr = [SchedulerInvoked ph]
          in
          (case harvest resultList of
             Inl e \<Rightarrow> (Inl e, tr)
           | Inr results \<Rightarrow>
              (let totalPassed = filter (\<lambda>r. RunResult.passed r = True) results;
                   stepsAll = stepFlags results;
                   stepsPassed = filter (\<lambda>step. step) stepsAll;
                   responseTimes = stepLatencies results
               in
               (case metricsResult responseTimes of
                  Inl e \<Rightarrow> (Inl e, tr)
                | Inr rt \<Rightarrow>
                   (let (chk, calls) =
                          (case configCheck w of
                             None \<Rightarrow> (None, [])
                           | Some c \<Rightarrow> (let (cs, evs) = computeChecks (checkResult env) rt c
                                        in (Some cs, evs)))
                    in
                    (case chk of
                       None \<Rightarrow> (Inl TypeError, tr @ calls)
                     | Some cs \<Rightarrow>
                        (let res = \<lparr>workflow = w,
                                    result = \<lparr>
                                      stats = \<lparr>
                                        tests = \<lparr>Counts.passed = length totalPassed,
                                                 total = length results\<rparr>,
                                        steps = \<lparr>Counts.passed = length stepsAll,
                                                 total = length stepsPassed\<rparr>\<rparr>,
                                      responseTime = rt,
                                      iterations = length results,
                                      rps = js_div (real (length responseTimes))
                                              (real_of_int (now_rps env - start env) / 1000),
                                      duration = now_duration env - start env,
                                      passed = list_all (\<lambda>(k, v). CheckResult.passed v)
                                                 (entries cs),
                                      checks = chk\<rparr>\<rparr>
                         in (Inr res,
                             tr @ calls @
                             (if ee env then [Emitted ''loadtest:result'' res] else []))))))))))"

subsection \<open>Observations on a run\<close>

text \<open>The metric of the summary that belongs to a key.\<close>

fun metricValue :: "LoadTestMetric \<Rightarrow> MetricKey \<Rightarrow> real" where
  "metricValue rt KAvg = avg rt"
| "metricValue rt KMin = min_v rt"
| "metricValue rt KMax = max_v rt"
| "metricValue rt KMed = med rt"
| "metricValue rt KP95 = p95 rt"
| "metricValue rt KP99 = p99 rt"

text \<open>The keys the check evaluator was called for, in call order.\<close>

fun evaluatedKeys :: "'m Event list \<Rightarrow> MetricKey list" where
  "evaluatedKeys [] = []"
| "evaluatedKeys (CheckEvaluated k v t # evs) = k # evaluatedKeys evs"
| "evaluatedKeys (SchedulerInvoked ph # evs) = evaluatedKeys evs"
| "evaluatedKeys (Emitted name rep # evs) = evaluatedKeys evs"

text \<open>The report of a run, if it returned one, and the keys of its \<^verbatim>\<open>checks\<close> object.\<close>

definition reportOf :: "(error + 'm LoadTestResult) \<times> 'm Event list \<Rightarrow> LoadTestOutcome option" where
  "reportOf out = (case fst out of Inl e \<Rightarrow> None | Inr rep \<Rightarrow> Some (LoadTestResult.result rep))"

definition reportedKeys :: "(error + 'm LoadTestResult) \<times> 'm Event list \<Rightarrow> MetricKey list option" where
  "reportedKeys out =
     (case reportOf out of
        None \<Rightarrow> None
      | Some r \<Rightarrow> (case checks r of None \<Rightarrow> None | Some cs \<Rightarrow> Some (map fst (entries cs))))"

subsection \<open>Stubbed collaborators for concrete runs\<close>

text \<open>
  A one-phase workflow with a given check block, an iteration with one test whose steps
  are given by their flag and latency, an evaluator over bounds (a number must be met
  exactly, every matcher is an exclusive upper bound), and an environment whose scheduler
  returns fixed outcomes two seconds after the start. \<open>run1\<close> is a run of two iterations:
  one passes with two passing steps, one fails with one failing step. \<open>emptyPhases\<close> is a
  workflow whose load-test block has an empty array of phases.
\<close>

definition phase1 :: Phase where
  "phase1 = \<lparr>arrivalRate = 1, Phase.duration = 1\<rparr>"

definition workflowWith :: "'m LoadTestCheck option \<Rightarrow> 'm Workflow" where
  "workflowWith c =
     \<lparr>config = Some \<lparr>Config.loadTest = Some \<lparr>phases = Some [phase1], check = c\<rparr>\<rparr>\<rparr>"

definition iterationResult :: "bool \<Rightarrow> (bool \<times> real) list \<Rightarrow> RunResult" where
  "iterationResult ok ss =
     \<lparr>RunResult.passed = ok,
      RunResult.tests =
        [\<lparr>TestResult.steps =
            map (\<lambda>(b, t). \<lparr>StepResult.passed = b, StepResult.responseTime = t\<rparr>) ss\<rparr>]\<rparr>"

definition iteration :: "bool \<Rightarrow> (bool \<times> real) list \<Rightarrow> WorkflowResult PromiseSettledResult" where
  "iteration ok ss = Fulfilled \<lparr>WorkflowResult.result = iterationResult ok ss\<rparr>"

fun stubCheckResult :: "real \<Rightarrow> real threshold \<Rightarrow> CheckResult" where
  "stubCheckResult given (Number n) = \<lparr>CheckResult.passed = (Num given = n)\<rparr>"
| "stubCheckResult given (Matchers ms) = \<lparr>CheckResult.passed = list_all (\<lambda>m. given < m) ms\<rparr>"

definition stubEnv :: "WorkflowResult PromiseSettledResult list \<Rightarrow> real Env" where
  "stubEnv outcomes =
     \<lparr>runPhases = (\<lambda>ph. outcomes), checkResult = stubCheckResult,
      start = 1000, now_rps = 3000, now_duration = 3005, ee = True\<rparr>"

definition run1 :: "WorkflowResult PromiseSettledResult list" where
  "run1 = [iteration True [(True, 50), (True, 70)], iteration False [(False, 10)]]"

definition results1 :: "RunResult list" where
  "results1 = [iterationResult True [(True, 50), (True, 70)], iterationResult False [(False, 10)]]"

definition noCheck :: "real LoadTestCheck" where
  "noCheck = Map.empty"

definition zeroCheck :: "real LoadTestCheck" where
  "zeroCheck = [KAvg \<mapsto> Number (Num 0)]"

definition someCheck :: "real LoadTestCheck" where
  "someCheck =
     [KAvg \<mapsto> Matchers [100], KMin \<mapsto> Number (Num 0), KMax \<mapsto> Number NaN,
      KP99 \<mapsto> Number (Num 50)]"

definition emptyPhases :: "real Workflow" where
  "emptyPhases =
     \<lparr>config = Some \<lparr>Config.loadTest = Some \<lparr>phases = Some [], check = Some someCheck\<rparr>\<rparr>\<rparr>"

section \<open>Properties\<close>

subsection \<open>The metric aggregator\<close>

text \<open>For \<open>p\<close> between 0 and 1 the lower index of the estimator is within the sample.\<close>

lemma quantile_index:
  assumes "s \<noteq> []" "0 \<le> p" "p \<le> 1"
  shows "nat \<lfloor>real (length s - 1) * p\<rfloor> \<le> length s - 1"
proof -
  have "real (length s - 1) * p \<le> real (length s - 1)"
    using assms by (simp add: mult_left_le)
  then have "\<lfloor>real (length s - 1) * p\<rfloor> \<le> int (length s - 1)"
    by (simp add: floor_le_iff)
  then show ?thesis by linarith
qed

text \<open>
  C7. On the empty sequence of samples the aggregation fails with \<open>EmptySampleSet\<close>: it
  returns no summary at all, hence none with undefined or not-a-number fields.
\<close>

theorem metricsResult_empty:
  "metricsResult [] = Inl EmptySampleSet"
  by (simp add: metricsResult_def mean_def)

subsection \<open>Harvesting and flattening\<close>

lemma harvest_length: "harvest rl = Inr results \<Longrightarrow> length results = length rl"
proof (induction rl arbitrary: results rule: harvest.induct)
  case 1
  then show ?case by simp
next
  case (2 reason rest)
  then show ?case by simp
next
  case (3 v rest)
  then show ?case by (auto split: sum.splits)
qed

text \<open>A harvest succeeds on fulfilled outcomes only, and keeps their order.\<close>

lemma harvest_fulfilled:
  "harvest rl = Inr results \<Longrightarrow> rl = map (\<lambda>r. Fulfilled \<lparr>WorkflowResult.result = r\<rparr>) results"
proof (induction rl arbitrary: results rule: harvest.induct)
  case 1
  then show ?case by simp
next
  case (2 reason rest)
  then show ?case by simp
next
  case (3 v rest)
  then show ?case by (cases v) (auto split: sum.splits)
qed

lemma harvest_rejected:
  "Rejected reason \<in> set rl \<Longrightarrow> harvest rl = Inl TypeError"
proof (induction rl rule: harvest.induct)
  case 1
  then show ?case by simp
next
  case (2 reason rest)
  then show ?case by simp
next
  case (3 v rest)
  then show ?case by auto
qed

lemma length_concat_map:
  "length (concat (map (\<lambda>x. map f (g x)) xs)) = sum_list (map (\<lambda>x. length (g x)) xs)"
  by (induction xs) simp_all

lemma length_stepFlags:
  "length (stepFlags results) =
     sum_list (map (\<lambda>r. sum_list (map (\<lambda>t. length (TestResult.steps t)) (RunResult.tests r)))
                   results)"
  by (induction results) (simp_all add: stepFlags_def length_concat_map)

lemma length_stepLatencies:
  "length (stepLatencies results) = length (stepFlags results)"
  by (induction results) (simp_all add: stepFlags_def stepLatencies_def length_concat_map)

lemma metricsResult_nonempty: "metricsResult xs = Inr m \<Longrightarrow> xs \<noteq> []"
  by (auto simp: metricsResult_def mean_def)

subsection \<open>The check block\<close>

lemma evaluatedKeys_append:
  "evaluatedKeys (xs @ ys) = evaluatedKeys xs @ evaluatedKeys ys"
  by (induction xs rule: evaluatedKeys.induct) simp_all

lemma checkMetric_fst:
  "fst (checkMetric cr c k v st) k' =
     (if k' = k then (case c k of None \<Rightarrow> fst st k
                               | Some t \<Rightarrow> if truthy t then Some (cr v t) else fst st k)
      else fst st k')"
  by (simp add: checkMetric_def split: option.splits)

lemma checkMetric_snd:
  "evaluatedKeys (snd (checkMetric cr c k v st)) =
     evaluatedKeys (snd st) @ (case c k of None \<Rightarrow> [] | Some t \<Rightarrow> if truthy t then [k] else [])"
  by (simp add: checkMetric_def evaluatedKeys_append split: option.splits)

lemma computeChecks_fst:
  "fst (computeChecks cr rt c) k =
     (case c k of None \<Rightarrow> None
               | Some t \<Rightarrow> if truthy t then Some (cr (metricValue rt k) t) else None)"
  by (cases k) (simp_all add: computeChecks_def checkMetric_fst Let_def split: option.splits)

lemma computeChecks_snd:
  "evaluatedKeys (snd (computeChecks cr rt c)) =
     filter (\<lambda>k. case c k of None \<Rightarrow> False | Some t \<Rightarrow> truthy t) metricKeys"
  by (simp add: computeChecks_def checkMetric_snd Let_def metricKeys_def split: option.splits)

subsection \<open>The orchestrator\<close>

text \<open>What a run that returns a report went through, and what the report holds.\<close>

lemma loadTest_report:
  assumes "loadTest env w = (Inr rep, tr)"
  obtains ph results rt c where
    "configPhases w = Some ph"
    "harvest (runPhases env ph) = Inr results"
    "metricsResult (stepLatencies results) = Inr rt"
    "configCheck w = Some c"
    "LoadTestResult.result rep =
       \<lparr>stats = \<lparr>Stats.tests = \<lparr>Counts.passed = length (filter RunResult.passed results),
                                 total = length results\<rparr>,
                 Stats.steps = \<lparr>Counts.passed = length (stepFlags results),
                                 total = length (filter (\<lambda>step. step) (stepFlags results))\<rparr>\<rparr>,
        LoadTestOutcome.responseTime = rt,
        iterations = length results,
        rps = js_div (real (length (stepLatencies results)))
                (real_of_int (now_rps env - start env) / 1000),
        LoadTestOutcome.duration = now_duration env - start env,
        LoadTestOutcome.passed =
          list_all (\<lambda>(k, v). CheckResult.passed v)
            (entries (fst (computeChecks (checkResult env) rt c))),
        checks = Some (fst (computeChecks (checkResult env) rt c))\<rparr>"
    "tr = SchedulerInvoked ph # snd (computeChecks (checkResult env) rt c) @
            (if ee env then [Emitted ''loadtest:result'' rep] else [])"
  using assms
  by (auto simp: loadTest_def Let_def split: option.splits sum.splits prod.splits if_splits)

lemma configPhases_None_iff:
  "configPhases w = None \<longleftrightarrow>
     config w = None \<or>
     (\<exists>c. config w = Some c \<and> Config.loadTest c = None) \<or>
     (\<exists>c lt. config w = Some c \<and> Config.loadTest c = Some lt \<and> phases lt = None)"
  by (auto simp: configPhases_def loadTestConfig_def split: option.splits)

text \<open>The concrete runs, evaluated.\<close>

lemmas fixture_defs =
  stubEnv_def workflowWith_def iteration_def iterationResult_def phase1_def run1_def
  results1_def someCheck_def

lemmas run_defs =
  loadTest_def configPhases_def configCheck_def loadTestConfig_def stepFlags_def
  stepLatencies_def metricsResult_def mean_def min_s_def max_s_def median_def quantile_def
  quantileSorted_def computeChecks_def checkMetric_def entries_def metricKeys_def
  js_div_def List.map_filter_def Let_def

lemma run1_phases: "configPhases (workflowWith c) = Some [phase1]"
  by (simp add: configPhases_def loadTestConfig_def workflowWith_def)

lemma run1_check: "configCheck (workflowWith c) = c"
  by (simp add: configCheck_def loadTestConfig_def workflowWith_def)

lemma run1_harvest: "harvest (runPhases (stubEnv run1) ph) = Inr results1"
  by (simp add: stubEnv_def run1_def results1_def iteration_def)

lemma run1_report:
  "\<exists>rep tr. loadTest (stubEnv run1) (workflowWith (Some someCheck)) = (Inr rep, tr)"
  by (simp add: run_defs fixture_defs)

text \<open>
  The guard on line 76 tests that \<^verbatim>\<open>phases\<close> is there, not that it holds a phase: once it
  is there the scheduler is invoked, and \<open>MissingLoadTestConfig\<close> is never the outcome.
\<close>

lemma loadTest_guard_passed:
  assumes "configPhases w = Some ph"
  shows "fst (loadTest env w) \<noteq> Inl MissingLoadTestConfig"
    and "\<exists>rest. snd (loadTest env w) = SchedulerInvoked ph # rest"
proof -
  have m: "metricsResult xs \<noteq> Inl MissingLoadTestConfig" for xs
    by (simp add: metricsResult_def mean_def min_s_def max_s_def median_def quantile_def)
  have h: "harvest rl \<noteq> Inl MissingLoadTestConfig" for rl
    by (induction rl rule: harvest.induct) (auto split: sum.splits)
  show "fst (loadTest env w) \<noteq> Inl MissingLoadTestConfig"
    using assms m h
    by (auto simp: loadTest_def Let_def split: option.splits sum.splits prod.splits)
  show "\<exists>rest. snd (loadTest env w) = SchedulerInvoked ph # rest"
    using assms
    by (auto simp: loadTest_def Let_def split: option.splits sum.splits prod.splits)
qed

text \<open>
  C4, as stated, fails on a load-test block that declares an empty array of phases: the
  block has no phase, yet the guard passes, the scheduler is invoked (and runs no
  iteration), and the call fails in the aggregator with \<open>EmptySampleSet\<close>.
\<close>

theorem empty_phases_pass_guard:
  "configPhases emptyPhases = Some [] \<and>
   loadTest (stubEnv []) emptyPhases = (Inl EmptySampleSet, [SchedulerInvoked []])"
  by (simp add: run_defs stubEnv_def emptyPhases_def)

text \<open>
  C4, amended. A workflow that has no configuration, no load-test block in it, or no
  \<^verbatim>\<open>phases\<close> property in that block makes \<open>loadTest\<close> fail with \<open>MissingLoadTestConfig\<close>,
  with no call made: the scheduler is not invoked, so no iteration runs, nothing is
  evaluated or emitted, and no report is produced.
\<close>

theorem loadTest_missing_config:
  assumes "config w = None \<or>
           (\<exists>c. config w = Some c \<and> Config.loadTest c = None) \<or>
           (\<exists>c lt. config w = Some c \<and> Config.loadTest c = Some lt \<and> phases lt = None)"
  shows "loadTest env w = (Inl MissingLoadTestConfig, [])"
proof -
  from assms have "configPhases w = None"
    by (simp only: configPhases_None_iff)
  then show ?thesis
    by (simp add: loadTest_def)
qed

theorem loadTest_missing_config_witness:
  "config \<lparr>config = Some \<lparr>Config.loadTest = None\<rparr>\<rparr> = Some \<lparr>Config.loadTest = None\<rparr> \<and>
   Config.loadTest \<lparr>Config.loadTest = None\<rparr> = None \<and>
   loadTest (stubEnv run1) \<lparr>config = Some \<lparr>Config.loadTest = None\<rparr>\<rparr>
     = (Inl MissingLoadTestConfig, [])"
  using loadTest_missing_config
    [of "\<lparr>config = Some \<lparr>Config.loadTest = None\<rparr>\<rparr>" "stubEnv run1"]
  by simp

text \<open>
  C8. In every run that returns a report, \<open>stats.tests.passed\<close> is the number of harvested
  iterations whose own \<open>passed\<close> flag is true and \<open>stats.tests.total\<close> is the number of
  harvested iterations (one per outcome the scheduler returned), so that
  \<open>stats.tests.total \<ge> stats.tests.passed \<ge> 0\<close>.
\<close>

theorem tests_stats:
  assumes "configPhases w = Some ph"
    and "harvest (runPhases env ph) = Inr results"
    and "loadTest env w = (Inr rep, tr)"
  shows "Counts.passed (Stats.tests (stats (LoadTestResult.result rep)))
           = length (filter RunResult.passed results) \<and>
         total (Stats.tests (stats (LoadTestResult.result rep))) = length results \<and>
         length results = length (runPhases env ph) \<and>
         Counts.passed (Stats.tests (stats (LoadTestResult.result rep)))
           \<le> total (Stats.tests (stats (LoadTestResult.result rep))) \<and>
         0 \<le> Counts.passed (Stats.tests (stats (LoadTestResult.result rep)))"
proof -
  from assms(3) obtain ph' results' where
    "configPhases w = Some ph'" "harvest (runPhases env ph') = Inr results'"
    "Stats.tests (stats (LoadTestResult.result rep)) =
       \<lparr>Counts.passed = length (filter RunResult.passed results'), total = length results'\<rparr>"
    by (rule loadTest_report) simp
  with assms(1,2) have
    "Stats.tests (stats (LoadTestResult.result rep)) =
       \<lparr>Counts.passed = length (filter RunResult.passed results), total = length results\<rparr>"
    by simp
  then show ?thesis
    using harvest_length[OF assms(2)] length_filter_le[of RunResult.passed results] by simp
qed

theorem tests_stats_witness:
  "configPhases (workflowWith (Some someCheck)) = Some [phase1] \<and>
   harvest (runPhases (stubEnv run1) [phase1]) = Inr results1 \<and>
   (\<exists>rep tr. loadTest (stubEnv run1) (workflowWith (Some someCheck)) = (Inr rep, tr) \<and>
      Counts.passed (Stats.tests (stats (LoadTestResult.result rep))) = 1 \<and>
      total (Stats.tests (stats (LoadTestResult.result rep))) = 2)"
proof -
  obtain rep tr where h: "loadTest (stubEnv run1) (workflowWith (Some someCheck)) = (Inr rep, tr)"
    using run1_report by blast
  from tests_stats[OF run1_phases run1_harvest h]
  have "Counts.passed (Stats.tests (stats (LoadTestResult.result rep))) = 1 \<and>
        total (Stats.tests (stats (LoadTestResult.result rep))) = 2"
    by (simp add: results1_def iterationResult_def)
  with h run1_phases run1_harvest show ?thesis by blast
qed

text \<open>
  C9. In every run that returns a report, \<open>rps\<close> is the number of latency samples collected
  divided by the seconds between the start timestamp and the clock reading taken for
  \<open>rps\<close>. A report has at least one sample, so when the two readings coincide the
  quotient is the positive infinity of the division.
\<close>

theorem rps_value:
  assumes "configPhases w = Some ph"
    and "harvest (runPhases env ph) = Inr results"
    and "loadTest env w = (Inr rep, tr)"
  shows "rps (LoadTestResult.result rep) =
           (if now_rps env = start env then PosInfinity
            else Num (real (length (stepLatencies results)) /
                      (real_of_int (now_rps env - start env) / 1000)))"
proof -
  from assms(3) obtain ph' results' rt where
    "configPhases w = Some ph'" "harvest (runPhases env ph') = Inr results'"
    "metricsResult (stepLatencies results') = Inr rt"
    "rps (LoadTestResult.result rep) =
       js_div (real (length (stepLatencies results')))
         (real_of_int (now_rps env - start env) / 1000)"
    by (rule loadTest_report) simp
  with assms(1,2) have m: "metricsResult (stepLatencies results) = Inr rt"
    and r: "rps (LoadTestResult.result rep) =
       js_div (real (length (stepLatencies results)))
         (real_of_int (now_rps env - start env) / 1000)"
    by simp_all
  have "stepLatencies results \<noteq> []" using m by (rule metricsResult_nonempty)
  then have "0 < real (length (stepLatencies results))" by simp
  then show ?thesis unfolding r by (simp add: js_div_def)
qed

theorem rps_value_witness:
  "configPhases (workflowWith (Some someCheck)) = Some [phase1] \<and>
   harvest (runPhases (stubEnv run1) [phase1]) = Inr results1 \<and>
   (\<exists>rep tr. loadTest (stubEnv run1) (workflowWith (Some someCheck)) = (Inr rep, tr) \<and>
      rps (LoadTestResult.result rep) = Num (3 / 2))"
proof -
  obtain rep tr where h: "loadTest (stubEnv run1) (workflowWith (Some someCheck)) = (Inr rep, tr)"
    using run1_report by blast
  from rps_value[OF run1_phases run1_harvest h]
  have "rps (LoadTestResult.result rep) = Num (3 / 2)"
    by (simp add: stubEnv_def stepLatencies_def results1_def iterationResult_def)
  with h run1_phases run1_harvest show ?thesis by blast
qed

text \<open>
  C10. In every run that returns a report, \<open>iterations\<close> equals \<open>stats.tests.total\<close>, both
  being the number of harvested iteration outcomes, and the samples aggregated into
  \<open>responseTime\<close> are as many as the flattened steps of all iterations.
\<close>

theorem iterations_and_samples:
  assumes "configPhases w = Some ph"
    and "harvest (runPhases env ph) = Inr results"
    and "loadTest env w = (Inr rep, tr)"
  shows "iterations (LoadTestResult.result rep)
           = total (Stats.tests (stats (LoadTestResult.result rep))) \<and>
         iterations (LoadTestResult.result rep) = length results \<and>
         metricsResult (stepLatencies results)
           = Inr (LoadTestOutcome.responseTime (LoadTestResult.result rep)) \<and>
         length (stepLatencies results) = length (stepFlags results) \<and>
         length (stepFlags results) =
           sum_list (map (\<lambda>r. sum_list (map (\<lambda>t. length (TestResult.steps t)) (RunResult.tests r)))
                         results)"
proof -
  from assms(3) obtain ph' results' rt where
    "configPhases w = Some ph'" "harvest (runPhases env ph') = Inr results'"
    "metricsResult (stepLatencies results') = Inr rt"
    "iterations (LoadTestResult.result rep) = length results'"
    "total (Stats.tests (stats (LoadTestResult.result rep))) = length results'"
    "LoadTestOutcome.responseTime (LoadTestResult.result rep) = rt"
    by (rule loadTest_report) simp
  with assms(1,2) show ?thesis
    by (simp add: length_stepLatencies length_stepFlags)
qed

theorem iterations_and_samples_witness:
  "configPhases (workflowWith (Some someCheck)) = Some [phase1] \<and>
   harvest (runPhases (stubEnv run1) [phase1]) = Inr results1 \<and>
   (\<exists>rep tr. loadTest (stubEnv run1) (workflowWith (Some someCheck)) = (Inr rep, tr) \<and>
      iterations (LoadTestResult.result rep) = 2 \<and>
      total (Stats.tests (stats (LoadTestResult.result rep))) = 2 \<and>
      metricsResult [50, 70, 10] = Inr (LoadTestOutcome.responseTime (LoadTestResult.result rep)) \<and>
      length (stepFlags results1) = 3)"
proof -
  obtain rep tr where h: "loadTest (stubEnv run1) (workflowWith (Some someCheck)) = (Inr rep, tr)"
    using run1_report by blast
  have l: "length results1 = 2"
    by (simp add: results1_def)
  have s: "stepLatencies results1 = [50, 70, 10]"
    by (simp add: stepLatencies_def results1_def iterationResult_def)
  note f = iterations_and_samples[OF run1_phases run1_harvest h, unfolded l s]
  have "iterations (LoadTestResult.result rep) = 2" using f by simp
  moreover have "total (Stats.tests (stats (LoadTestResult.result rep))) = 2"
    using f by simp
  moreover have "metricsResult [50, 70, 10]
      = Inr (LoadTestOutcome.responseTime (LoadTestResult.result rep))"
    by (rule f[THEN conjunct2, THEN conjunct2, THEN conjunct1])
  moreover have "length (stepFlags results1) = 3"
    using f by simp
  ultimately show ?thesis
    using h run1_phases run1_harvest by blast
qed

text \<open>
  What the check block gives in a run that returns a report: the evaluator is called
  exactly once for each key whose threshold is present and truthy and never for another
  key, and \<open>checks\<close> holds its result on the key's metric and threshold for exactly those
  keys.
\<close>

lemma checks_for_truthy_thresholds:
  assumes "configCheck w = Some c"
    and "loadTest env w = (Inr rep, tr)"
  shows "\<exists>cs. checks (LoadTestResult.result rep) = Some cs \<and>
           (\<forall>k. cs k =
              (case c k of
                 None \<Rightarrow> None
               | Some t \<Rightarrow>
                   if truthy t
                   then Some (checkResult env
                          (metricValue (LoadTestOutcome.responseTime (LoadTestResult.result rep)) k) t)
                   else None)) \<and>
           (\<forall>k. count_list (evaluatedKeys tr) k =
              (case c k of None \<Rightarrow> 0 | Some t \<Rightarrow> if truthy t then 1 else 0))"
proof -
  from assms(2) obtain ph rt c' where
    c': "configCheck w = Some c'"
    and rt: "LoadTestOutcome.responseTime (LoadTestResult.result rep) = rt"
    and cs: "checks (LoadTestResult.result rep) = Some (fst (computeChecks (checkResult env) rt c'))"
    and tr: "tr = SchedulerInvoked ph # snd (computeChecks (checkResult env) rt c') @
            (if ee env then [Emitted ''loadtest:result'' rep] else [])"
    by (rule loadTest_report) simp
  from c' assms(1) have cc: "c' = c" by simp
  have keys: "evaluatedKeys tr =
      filter (\<lambda>k. case c k of None \<Rightarrow> False | Some t \<Rightarrow> truthy t) metricKeys"
    unfolding tr cc by (simp add: evaluatedKeys_append computeChecks_snd)
  have "count_list (evaluatedKeys tr) k =
          (case c k of None \<Rightarrow> 0 | Some t \<Rightarrow> if truthy t then 1 else 0)" for k
    unfolding keys by (cases k) (simp_all add: metricKeys_def split: option.splits)
  then show ?thesis
    using cs unfolding cc rt by (simp add: computeChecks_fst)
qed

subsection \<open>Where the orchestrator departs from its specification\<close>

text \<open>
  The report stores the step counts the other way round: \<open>stats.steps.passed\<close> receives the
  number of all flattened steps and \<open>stats.steps.total\<close> the number of passed ones
  (lines 128-129), unlike \<open>stats.tests\<close> on lines 132-133.
\<close>

lemma steps_stats_reported:
  assumes "configPhases w = Some ph"
    and "harvest (runPhases env ph) = Inr results"
    and "loadTest env w = (Inr rep, tr)"
  shows "Counts.passed (Stats.steps (stats (LoadTestResult.result rep))) = length (stepFlags results) \<and>
         total (Stats.steps (stats (LoadTestResult.result rep)))
           = length (filter (\<lambda>step. step) (stepFlags results)) \<and>
         total (Stats.steps (stats (LoadTestResult.result rep)))
           \<le> Counts.passed (Stats.steps (stats (LoadTestResult.result rep)))"
proof -
  from assms(3) obtain ph' results' where
    "configPhases w = Some ph'" "harvest (runPhases env ph') = Inr results'"
    "Stats.steps (stats (LoadTestResult.result rep)) =
       \<lparr>Counts.passed = length (stepFlags results'),
        total = length (filter (\<lambda>step. step) (stepFlags results'))\<rparr>"
    by (rule loadTest_report) simp
  with assms(1,2) show ?thesis by simp
qed

text \<open>
  C1. The claim is \<open>stats.steps.total \<ge> stats.steps.passed \<ge> 0\<close>, with the total counting
  all flattened steps and \<open>passed\<close> the passing ones. On the run of three steps of which
  two pass, with an empty check block, the report has \<open>stats.steps.passed = 3\<close> and
  \<open>stats.steps.total = 2\<close>.
\<close>

theorem steps_stats_swapped:
  "map_option (Stats.steps \<circ> stats) (reportOf (loadTest (stubEnv run1) (workflowWith (Some noCheck))))
     = Some \<lparr>Counts.passed = 3, total = 2\<rparr>"
  by (simp add: run_defs fixture_defs noCheck_def reportOf_def)

text \<open>
  Without a check block \<open>checks\<close> stays \<^verbatim>\<open>undefined\<close>, and \<^verbatim>\<open>Object.entries\<close> on line 141
  throws: no such run returns a report.
\<close>

lemma loadTest_without_check:
  assumes "configCheck w = None"
  shows "reportOf (loadTest env w) = None"
  using assms
  by (simp add: reportOf_def loadTest_def Let_def split: option.splits sum.splits)

text \<open>
  C2. The claim is that a workflow with phases and no check block gets a report whose
  \<open>passed\<close> is true. On such a workflow and the run of three steps, \<open>loadTest\<close> fails with
  a \<open>TypeError\<close> after the scheduler has run, and nothing is emitted.
\<close>

theorem no_check_block_throws:
  "loadTest (stubEnv run1) (workflowWith None) = (Inl TypeError, [SchedulerInvoked [phase1]])"
  by (simp add: run_defs fixture_defs)

text \<open>A rejected outcome among the settled ones makes line 80 throw, whatever the rest is.\<close>

lemma loadTest_rejected:
  assumes "configPhases w = Some ph"
    and "Rejected reason \<in> set (runPhases env ph)"
  shows "loadTest env w = (Inl TypeError, [SchedulerInvoked ph])"
  using assms(1) harvest_rejected[OF assms(2)]
  by (simp add: loadTest_def)

text \<open>
  C3. The claim is that a rejected iteration is counted as a non-passed iteration and the
  run still returns a report. On a run whose third iteration is rejected, \<open>loadTest\<close>
  fails with a \<open>TypeError\<close> and returns no report.
\<close>

theorem rejected_iteration_throws:
  "loadTest (stubEnv (run1 @ [Rejected ''connection refused''])) (workflowWith (Some someCheck))
     = (Inl TypeError, [SchedulerInvoked [phase1]])"
  by (simp add: run_defs fixture_defs)

text \<open>
  C5. The claim is that the evaluator is called once for each key present in the check
  block and that \<open>checks\<close> has an entry for exactly the present keys. On the check block
  whose only key is \<^verbatim>\<open>avg\<close> with threshold \<^verbatim>\<open>0\<close>, the guard \<^verbatim>\<open>if (check.avg)\<close> on line 98
  reads the zero as absent: the evaluator is not called, \<open>checks\<close> is empty, and the
  report's \<open>passed\<close> is true.
\<close>

theorem zero_threshold_not_evaluated:
  "zeroCheck KAvg = Some (Number (Num 0)) \<and>
   reportedKeys (loadTest (stubEnv run1) (workflowWith (Some zeroCheck))) = Some [] \<and>
   evaluatedKeys (snd (loadTest (stubEnv run1) (workflowWith (Some zeroCheck)))) = [] \<and>
   map_option LoadTestOutcome.passed
     (reportOf (loadTest (stubEnv run1) (workflowWith (Some zeroCheck)))) = Some True"
  by (simp add: run_defs fixture_defs zeroCheck_def reportedKeys_def reportOf_def)

end
